theory Spec2Isabelle
  imports Main "HOL-Library.Multiset" "HOL-Library.Sublist" "HOL-Library.Word"
begin

section \<open>The task-list store of \<open>src/App.tsx\<close>\<close>

subsection \<open>Data model\<close>

text \<open>
  A JavaScript string is a sequence of UTF-16 code units. Task names, error messages and
  the draft text of the input box are such strings; \<open>utf16\<close> writes an ASCII literal as one.
\<close>

type_synonym jsstring = "16 word list"

definition utf16 :: "string \<Rightarrow> jsstring" where
  "utf16 cs = map (\<lambda>c. of_nat (of_char c)) cs"

text \<open>
  \<^verbatim>\<open>interface Task { id: number; name: string; done: boolean; }\<close>
  The identifiers the program produces are integers (\<^verbatim>\<open>Date.now()\<close>, or the integer ids of
  the fetched records), so \<open>id\<close> is an \<open>int\<close> and \<^verbatim>\<open>===\<close> on it is equality. The fields \<open>id\<close>
  and \<open>done\<close> carry a prime, the plain names being taken in Isabelle.
\<close>

record task =
  id' :: int
  name :: jsstring
  done' :: bool

text \<open>
  \<^verbatim>\<open>interface State { tasks: Task[]; loading: boolean; error: string | null; }\<close>
  with \<^verbatim>\<open>null\<close> as \<open>None\<close>.
\<close>

record state =
  tasks :: "task list"
  loading :: bool
  error :: "jsstring option"

text \<open>
  The five members of the union \<^verbatim>\<open>Action\<close>, each with its payload. The \<^verbatim>\<open>switch\<close> of the
  reducer also has a \<^verbatim>\<open>default\<close> branch, which only an action object outside the declared
  union can reach; \<open>OTHER tag\<close> stands for such an object, with its \<^verbatim>\<open>type\<close> field.
\<close>

datatype action =
    FETCH_SUCCESS "task list"
  | FETCH_ERROR jsstring
  | TOGGLE_TASK int
  | ADD_TASK task
  | REMOVE_TASK int
  | OTHER string

fun action_type :: "action \<Rightarrow> string" where
  "action_type (FETCH_SUCCESS payload) = ''FETCH_SUCCESS''"
| "action_type (FETCH_ERROR payload) = ''FETCH_ERROR''"
| "action_type (TOGGLE_TASK payload) = ''TOGGLE_TASK''"
| "action_type (ADD_TASK payload) = ''ADD_TASK''"
| "action_type (REMOVE_TASK payload) = ''REMOVE_TASK''"
| "action_type (OTHER tag) = tag"

definition recognised_types :: "string list" where
  "recognised_types =
     [''FETCH_SUCCESS'', ''FETCH_ERROR'', ''TOGGLE_TASK'', ''ADD_TASK'', ''REMOVE_TASK'']"

definition initialState :: state where
  "initialState = \<lparr>tasks = [], loading = True, error = None\<rparr>"

subsection \<open>The reducer\<close>

text \<open>
  One equation per \<^verbatim>\<open>case\<close> of the \<^verbatim>\<open>switch\<close>; the spread \<^verbatim>\<open>{ ...state, f: v }\<close> is a record
  update, \<^verbatim>\<open>[...state.tasks, action.payload]\<close> appends at the end.
\<close>

fun reducer :: "state \<Rightarrow> action \<Rightarrow> state" where
  "reducer state (FETCH_SUCCESS payload) = state\<lparr>tasks := payload, loading := False\<rparr>"
| "reducer state (FETCH_ERROR payload) = state\<lparr>loading := False, error := Some payload\<rparr>"
| "reducer state (TOGGLE_TASK payload) =
     state\<lparr>tasks :=
       map (\<lambda>task. if id' task = payload then task\<lparr>done' := \<not> done' task\<rparr> else task)
         (tasks state)\<rparr>"
| "reducer state (ADD_TASK payload) = state\<lparr>tasks := tasks state @ [payload]\<rparr>"
| "reducer state (REMOVE_TASK payload) =
     state\<lparr>tasks := filter (\<lambda>task. id' task \<noteq> payload) (tasks state)\<rparr>"
| "reducer state (OTHER tag) = state"

text \<open>Dispatching a sequence of actions applies the reducer to each in turn.\<close>

definition dispatch_all :: "state \<Rightarrow> action list \<Rightarrow> state" where
  "dispatch_all state acts = foldl reducer state acts"

subsection \<open>The view\<close>

text \<open>
  \<^verbatim>\<open>String.prototype.trim\<close> removes leading and trailing white space and line terminators:
  TAB, LF, VT, FF, CR, SP, NBSP, the other space separators (U+1680, U+2000 to U+200A,
  U+202F, U+205F, U+3000), LS, PS and U+FEFF. All of them are single code units.
\<close>

definition is_ws :: "16 word \<Rightarrow> bool" where
  "is_ws c \<longleftrightarrow>
     c = 0x0009 \<or> c = 0x000A \<or> c = 0x000B \<or> c = 0x000C \<or> c = 0x000D \<or> c = 0x0020 \<or>
     c = 0x00A0 \<or> c = 0x1680 \<or> (0x2000 \<le> c \<and> c \<le> 0x200A) \<or> c = 0x2028 \<or>
     c = 0x2029 \<or> c = 0x202F \<or> c = 0x205F \<or> c = 0x3000 \<or> c = 0xFEFF"

definition trim :: "jsstring \<Rightarrow> jsstring" where
  "trim s = rev (dropWhile is_ws (rev (dropWhile is_ws s)))"

text \<open>
  \<^verbatim>\<open>handleAddTask\<close> reads the draft \<^verbatim>\<open>newTaskName\<close> and the clock (\<^verbatim>\<open>Date.now()\<close>, here the
  argument \<open>now\<close>). Its effects are the actions it dispatches and the new value of the draft:
  nothing and the draft as it was when the early \<^verbatim>\<open>return\<close> is taken, otherwise one
  \<^verbatim>\<open>ADD_TASK\<close> and the empty draft.
\<close>

definition handleAddTask :: "int \<Rightarrow> jsstring \<Rightarrow> action list \<times> jsstring" where
  "handleAddTask now newTaskName =
     (if trim newTaskName = [] then ([], newTaskName)
      else
        let newTask = \<lparr>id' = now, name = newTaskName, done' = False\<rparr>
        in ([ADD_TASK newTask], []))"

text \<open>A click on the add button: the handler runs and the store takes what it dispatched.\<close>

definition click_add :: "int \<Rightarrow> state \<times> jsstring \<Rightarrow> state \<times> jsstring" where
  "click_add now v =
     (case handleAddTask now (snd v) of
        (acts, draft) \<Rightarrow> (dispatch_all (fst v) acts, draft))"

text \<open>\<^verbatim>\<open>handleRemoveTask\<close> dispatches one \<^verbatim>\<open>REMOVE_TASK\<close>.\<close>

definition handleRemoveTask :: "int \<Rightarrow> action list" where
  "handleRemoveTask i = [REMOVE_TASK i]"

text \<open>The two projections, lines 103 and 104 of the component.\<close>

definition tasksToDo :: "state \<Rightarrow> task list" where
  "tasksToDo state = filter (\<lambda>task. \<not> done' task) (tasks state)"

definition doneTasks :: "state \<Rightarrow> task list" where
  "doneTasks state = filter (\<lambda>task. done' task) (tasks state)"

text \<open>
  What the component returns: the loading paragraph, the error panel with its message, or
  the input box with the two lists. \<^verbatim>\<open>if (error)\<close> tests a \<^verbatim>\<open>string | null\<close> for truthiness:
  \<^verbatim>\<open>null\<close> and the empty string are both falsy.
\<close>

datatype rendering =
    LoadingIndicator
  | ErrorPanel jsstring
  | TaskLists "task list" "task list"

definition truthy :: "jsstring option \<Rightarrow> bool" where
  "truthy e = (case e of None \<Rightarrow> False | Some m \<Rightarrow> m \<noteq> [])"

definition App :: "state \<Rightarrow> rendering" where
  "App state =
     (if loading state then LoadingIndicator
      else if truthy (error state) then ErrorPanel (the (error state))
      else TaskLists (tasksToDo state) (doneTasks state))"

section \<open>Facts on the list operations\<close>

lemma toggle_map_absent:
  "i \<notin> id' ` set xs \<Longrightarrow>
   map (\<lambda>task. if id' task = i then task\<lparr>done' := \<not> done' task\<rparr> else task) xs = xs"
  by (induction xs) auto

lemma toggle_map_present:
  "i \<in> id' ` set xs \<Longrightarrow>
   map (\<lambda>task. if id' task = i then task\<lparr>done' := \<not> done' task\<rparr> else task) xs \<noteq> xs"
proof (induction xs)
  case Nil
  then show ?case by simp
next
  case (Cons x xs)
  show ?case
  proof (cases "id' x = i")
    case True
    have "x\<lparr>done' := \<not> done' x\<rparr> \<noteq> x"
      by (cases x) simp
    with True show ?thesis by simp
  next
    case False
    with Cons.prems have "i \<in> id' ` set xs" by auto
    with Cons.IH False show ?thesis by simp
  qed
qed

lemma toggle_map_twice:
  "map (\<lambda>task. if id' task = i then task\<lparr>done' := \<not> done' task\<rparr> else task)
     (map (\<lambda>task. if id' task = i then task\<lparr>done' := \<not> done' task\<rparr> else task) xs) = xs"
  by (induction xs) auto

lemma remove_filter_absent:
  "i \<notin> id' ` set xs \<Longrightarrow> filter (\<lambda>task. id' task \<noteq> i) xs = xs"
  by (induction xs) auto

lemma filter_split_mset:
  "mset (filter (\<lambda>x. \<not> P x) xs @ filter P xs) = mset xs"
  by (induction xs) simp_all

lemma dispatch_all_not_loading:
  "\<not> loading S \<Longrightarrow> \<not> loading (dispatch_all S acts)"
proof (induction acts arbitrary: S)
  case Nil
  then show ?case by (simp add: dispatch_all_def)
next
  case (Cons a acts)
  from Cons.prems have "\<not> loading (reducer S a)"
    by (cases a) simp_all
  then have "\<not> loading (dispatch_all (reducer S a) acts)"
    by (rule Cons.IH)
  then show ?case by (simp add: dispatch_all_def)
qed

section \<open>Properties\<close>

subsection \<open>Fetch resolution\<close>

text \<open>
  C4. For every state \<open>S\<close> and every task list \<open>P\<close>, the state after \<open>FETCH_SUCCESS P\<close> has
  \<open>P\<close> as its tasks and is no longer loading. From the initial state, \<open>FETCH_SUCCESS\<close> with
  the single task \<open>{id: 1, name: "Buy milk", done: false}\<close> gives exactly the state with that
  one task, \<open>loading = false\<close> and \<open>error = null\<close>.
\<close>

theorem fetch_success_replaces_tasks:
  "tasks (reducer S (FETCH_SUCCESS P)) = P \<and>
   loading (reducer S (FETCH_SUCCESS P)) = False \<and>
   reducer initialState
       (FETCH_SUCCESS [\<lparr>id' = 1, name = utf16 ''Buy milk'', done' = False\<rparr>])
     = \<lparr>tasks = [\<lparr>id' = 1, name = utf16 ''Buy milk'', done' = False\<rparr>],
        loading = False, error = None\<rparr>"
  by (simp add: initialState_def)

text \<open>
  C5. For every state \<open>S\<close> and every message \<open>m\<close>, the state after \<open>FETCH_ERROR m\<close> has
  \<open>m\<close> as its error, is no longer loading, and has the tasks of \<open>S\<close>.
\<close>

theorem fetch_error_sets_error:
  "error (reducer S (FETCH_ERROR m)) = Some m \<and>
   loading (reducer S (FETCH_ERROR m)) = False \<and>
   tasks (reducer S (FETCH_ERROR m)) = tasks S"
  by simp

subsection \<open>Local operations\<close>

text \<open>
  C2. \<open>TOGGLE_TASK\<close> is its own inverse: for every state \<open>S\<close> and every id that some task
  of \<open>S\<close> carries, one \<open>TOGGLE_TASK\<close> changes the task list and a second one with the same
  id gives back the task list of \<open>S\<close>, indeed \<open>S\<close> itself: the flag of every toggled task is
  restored and no other task has changed.
\<close>

theorem toggle_twice_restores:
  "i \<in> id' ` set (tasks S) \<Longrightarrow>
   tasks (reducer S (TOGGLE_TASK i)) \<noteq> tasks S \<and>
   tasks (reducer (reducer S (TOGGLE_TASK i)) (TOGGLE_TASK i)) = tasks S \<and>
   reducer (reducer S (TOGGLE_TASK i)) (TOGGLE_TASK i) = S"
  by (simp add: toggle_map_present toggle_map_twice del: map_map)

theorem toggle_twice_restores_witness:
  "(1::int) \<in> id' ` set (tasks \<lparr>tasks = [\<lparr>id' = 1, name = utf16 ''Buy milk'', done' = False\<rparr>,
                                           \<lparr>id' = 2, name = utf16 ''Walk'', done' = True\<rparr>],
                                  loading = False, error = None\<rparr>) \<and>
   tasks (reducer \<lparr>tasks = [\<lparr>id' = 1, name = utf16 ''Buy milk'', done' = False\<rparr>,
                            \<lparr>id' = 2, name = utf16 ''Walk'', done' = True\<rparr>],
                   loading = False, error = None\<rparr> (TOGGLE_TASK 1))
     = [\<lparr>id' = 1, name = utf16 ''Buy milk'', done' = True\<rparr>,
        \<lparr>id' = 2, name = utf16 ''Walk'', done' = True\<rparr>] \<and>
   reducer (reducer \<lparr>tasks = [\<lparr>id' = 1, name = utf16 ''Buy milk'', done' = False\<rparr>,
                            \<lparr>id' = 2, name = utf16 ''Walk'', done' = True\<rparr>],
                   loading = False, error = None\<rparr> (TOGGLE_TASK 1)) (TOGGLE_TASK 1)
     = \<lparr>tasks = [\<lparr>id' = 1, name = utf16 ''Buy milk'', done' = False\<rparr>,
                  \<lparr>id' = 2, name = utf16 ''Walk'', done' = True\<rparr>],
         loading = False, error = None\<rparr>"
  using toggle_twice_restores [of 1 "\<lparr>tasks = [\<lparr>id' = 1, name = utf16 ''Buy milk'', done' = False\<rparr>,
                            \<lparr>id' = 2, name = utf16 ''Walk'', done' = True\<rparr>],
                   loading = False, error = None\<rparr>"]
  by simp

text \<open>
  C3. For every state \<open>S\<close> and every task \<open>t\<close> whose id is fresh, that is carried by no
  task of \<open>S\<close>, \<open>ADD_TASK t\<close> followed by \<open>REMOVE_TASK\<close> of the id of \<open>t\<close> gives back the
  task list of \<open>S\<close>, the same elements in the same order.
\<close>

theorem add_then_remove_restores:
  "id' t \<notin> id' ` set (tasks S) \<Longrightarrow>
   tasks (reducer (reducer S (ADD_TASK t)) (REMOVE_TASK (id' t))) = tasks S \<and>
   reducer (reducer S (ADD_TASK t)) (REMOVE_TASK (id' t)) = S"
  by (simp add: remove_filter_absent)

theorem add_then_remove_restores_witness:
  "id' \<lparr>id' = 7, name = utf16 ''New'', done' = False\<rparr>
     \<notin> id' ` set (tasks \<lparr>tasks = [\<lparr>id' = 1, name = utf16 ''Buy milk'', done' = False\<rparr>,
                                   \<lparr>id' = 2, name = utf16 ''Walk'', done' = True\<rparr>],
                          loading = False, error = None\<rparr>) \<and>
   tasks (reducer (reducer \<lparr>tasks = [\<lparr>id' = 1, name = utf16 ''Buy milk'', done' = False\<rparr>,
                                     \<lparr>id' = 2, name = utf16 ''Walk'', done' = True\<rparr>],
                            loading = False, error = None\<rparr>
                    (ADD_TASK \<lparr>id' = 7, name = utf16 ''New'', done' = False\<rparr>))
            (REMOVE_TASK 7))
     = [\<lparr>id' = 1, name = utf16 ''Buy milk'', done' = False\<rparr>,
        \<lparr>id' = 2, name = utf16 ''Walk'', done' = True\<rparr>]"
  using add_then_remove_restores
    [of "\<lparr>id' = 7, name = utf16 ''New'', done' = False\<rparr>"
        "\<lparr>tasks = [\<lparr>id' = 1, name = utf16 ''Buy milk'', done' = False\<rparr>,
                   \<lparr>id' = 2, name = utf16 ''Walk'', done' = True\<rparr>],
          loading = False, error = None\<rparr>"]
  by simp

text \<open>
  Freshness is needed: the removal filters on the id alone, so it also takes an older
  task that carries the id of the added one.
\<close>

lemma add_then_remove_stale_id:
  "tasks (reducer (reducer \<lparr>tasks = [\<lparr>id' = 7, name = utf16 ''Old'', done' = False\<rparr>],
                            loading = False, error = None\<rparr>
                    (ADD_TASK \<lparr>id' = 7, name = utf16 ''New'', done' = False\<rparr>))
            (REMOVE_TASK 7)) = []"
  by simp

text \<open>
  C6. \<open>TOGGLE_TASK\<close> and \<open>REMOVE_TASK\<close> are total and cannot fail: for every state \<open>S\<close> and
  every id that no task of \<open>S\<close> carries, both return \<open>S\<close>. An id that is not found is a
  silent no-op, not an error.
\<close>

theorem absent_id_is_no_op:
  "i \<notin> id' ` set (tasks S) \<Longrightarrow>
   reducer S (TOGGLE_TASK i) = S \<and> reducer S (REMOVE_TASK i) = S"
  by (simp add: toggle_map_absent remove_filter_absent)

theorem absent_id_is_no_op_witness:
  "(9::int) \<notin> id' ` set (tasks \<lparr>tasks = [\<lparr>id' = 1, name = utf16 ''Buy milk'', done' = False\<rparr>,
                                           \<lparr>id' = 2, name = utf16 ''Walk'', done' = True\<rparr>],
                                  loading = False, error = None\<rparr>) \<and>
   reducer \<lparr>tasks = [\<lparr>id' = 1, name = utf16 ''Buy milk'', done' = False\<rparr>,
                     \<lparr>id' = 2, name = utf16 ''Walk'', done' = True\<rparr>],
            loading = False, error = None\<rparr> (TOGGLE_TASK 9)
     = \<lparr>tasks = [\<lparr>id' = 1, name = utf16 ''Buy milk'', done' = False\<rparr>,
                  \<lparr>id' = 2, name = utf16 ''Walk'', done' = True\<rparr>],
         loading = False, error = None\<rparr> \<and>
   reducer \<lparr>tasks = [\<lparr>id' = 1, name = utf16 ''Buy milk'', done' = False\<rparr>,
                     \<lparr>id' = 2, name = utf16 ''Walk'', done' = True\<rparr>],
            loading = False, error = None\<rparr> (REMOVE_TASK 9)
     = \<lparr>tasks = [\<lparr>id' = 1, name = utf16 ''Buy milk'', done' = False\<rparr>,
                  \<lparr>id' = 2, name = utf16 ''Walk'', done' = True\<rparr>],
         loading = False, error = None\<rparr>"
  using absent_id_is_no_op [of 9 "\<lparr>tasks = [\<lparr>id' = 1, name = utf16 ''Buy milk'', done' = False\<rparr>,
                     \<lparr>id' = 2, name = utf16 ''Walk'', done' = True\<rparr>],
            loading = False, error = None\<rparr>"]
  by simp

text \<open>
  C7. For every state \<open>S\<close> and every action whose tag is none of \<open>FETCH_SUCCESS\<close>,
  \<open>FETCH_ERROR\<close>, \<open>TOGGLE_TASK\<close>, \<open>ADD_TASK\<close>, \<open>REMOVE_TASK\<close>, the reducer returns \<open>S\<close>
  unchanged; it raises no error.
\<close>

theorem unknown_action_is_identity:
  "action_type a \<notin> set recognised_types \<Longrightarrow> reducer S a = S"
  by (cases a) (simp_all add: recognised_types_def)

theorem unknown_action_is_identity_witness:
  "action_type (OTHER ''RESET'') \<notin> set recognised_types \<and>
   reducer \<lparr>tasks = [\<lparr>id' = 1, name = utf16 ''Buy milk'', done' = False\<rparr>],
            loading = False, error = None\<rparr> (OTHER ''RESET'')
     = \<lparr>tasks = [\<lparr>id' = 1, name = utf16 ''Buy milk'', done' = False\<rparr>],
         loading = False, error = None\<rparr>"
proof -
  have h: "action_type (OTHER ''RESET'') \<notin> set recognised_types"
    by (simp add: recognised_types_def)
  from h unknown_action_is_identity [OF h] show ?thesis by simp
qed

text \<open>
  C8. Once \<open>loading\<close> is false it stays false: for every state \<open>S\<close> that is not loading
  and every action, the next state is not loading, and so is the state after any sequence
  of actions.
\<close>

theorem loading_stays_false:
  "loading S = False \<Longrightarrow>
   loading (reducer S a) = False \<and> loading (dispatch_all S acts) = False"
proof -
  assume h: "loading S = False"
  have "loading (reducer S a) = False"
    using h by (cases a) simp_all
  moreover have "loading (dispatch_all S acts) = False"
    using h dispatch_all_not_loading [of S acts] by simp
  ultimately show ?thesis by simp
qed

theorem loading_stays_false_witness:
  "loading (reducer initialState (FETCH_ERROR (utf16 ''Network Error''))) = False \<and>
   loading (reducer (reducer initialState (FETCH_ERROR (utf16 ''Network Error'')))
              (ADD_TASK \<lparr>id' = 7, name = utf16 ''New'', done' = False\<rparr>)) = False \<and>
   loading (dispatch_all (reducer initialState (FETCH_ERROR (utf16 ''Network Error'')))
              [TOGGLE_TASK 1, FETCH_SUCCESS [], REMOVE_TASK 1]) = False"
proof -
  have h: "loading (reducer initialState (FETCH_ERROR (utf16 ''Network Error''))) = False"
    by simp
  from h loading_stays_false [OF h] show ?thesis by simp
qed

subsection \<open>The view\<close>

text \<open>
  C1. For every state, \<open>tasksToDo\<close> (the tasks that are not done) and \<open>doneTasks\<close> (the
  tasks that are done) split \<open>tasks\<close> totally and in order: \<open>tasksToDo @ doneTasks\<close> is a
  permutation of \<open>tasks\<close>, each projection is a subsequence of \<open>tasks\<close> and so keeps the
  relative order of its elements, and every task is in exactly one of the two.
\<close>

theorem projections_split:
  "mset (tasksToDo S @ doneTasks S) = mset (tasks S) \<and>
   subseq (tasksToDo S) (tasks S) \<and>
   subseq (doneTasks S) (tasks S) \<and>
   (\<forall>t \<in> set (tasks S). (t \<in> set (tasksToDo S)) \<noteq> (t \<in> set (doneTasks S))) \<and>
   (\<forall>t \<in> set (tasksToDo S). \<not> done' t) \<and>
   (\<forall>t \<in> set (doneTasks S). done' t)"
proof -
  have "mset (tasksToDo S @ doneTasks S) = mset (tasks S)"
    unfolding tasksToDo_def doneTasks_def by (rule filter_split_mset)
  then show ?thesis
    by (auto simp: tasksToDo_def doneTasks_def)
qed

theorem projections_split_witness:
  "tasksToDo \<lparr>tasks = [\<lparr>id' = 1, name = utf16 ''a'', done' = False\<rparr>,
                        \<lparr>id' = 2, name = utf16 ''b'', done' = True\<rparr>,
                        \<lparr>id' = 3, name = utf16 ''c'', done' = False\<rparr>],
               loading = False, error = None\<rparr>
     = [\<lparr>id' = 1, name = utf16 ''a'', done' = False\<rparr>,
        \<lparr>id' = 3, name = utf16 ''c'', done' = False\<rparr>] \<and>
   doneTasks \<lparr>tasks = [\<lparr>id' = 1, name = utf16 ''a'', done' = False\<rparr>,
                        \<lparr>id' = 2, name = utf16 ''b'', done' = True\<rparr>,
                        \<lparr>id' = 3, name = utf16 ''c'', done' = False\<rparr>],
               loading = False, error = None\<rparr>
     = [\<lparr>id' = 2, name = utf16 ''b'', done' = True\<rparr>] \<and>
   subseq [\<lparr>id' = 1, name = utf16 ''a'', done' = False\<rparr>,
           \<lparr>id' = 3, name = utf16 ''c'', done' = False\<rparr>]
          [\<lparr>id' = 1, name = utf16 ''a'', done' = False\<rparr>,
           \<lparr>id' = 2, name = utf16 ''b'', done' = True\<rparr>,
           \<lparr>id' = 3, name = utf16 ''c'', done' = False\<rparr>]"
  using projections_split [of "\<lparr>tasks = [\<lparr>id' = 1, name = utf16 ''a'', done' = False\<rparr>,
                        \<lparr>id' = 2, name = utf16 ''b'', done' = True\<rparr>,
                        \<lparr>id' = 3, name = utf16 ''c'', done' = False\<rparr>],
               loading = False, error = None\<rparr>"]
  by (simp add: tasksToDo_def doneTasks_def)

text \<open>
  C9. The add-task gesture suppresses a draft whose trim is empty: nothing is dispatched,
  and neither the state nor the draft changes. For every other draft it dispatches one
  \<open>ADD_TASK\<close> whose task has the draft, untrimmed, as name and \<open>done = false\<close>, and the
  reducer appends that task at the end of \<open>tasks\<close>. The reducer validates nothing: it
  appends any task, also one whose name is the empty string.
\<close>

theorem add_task_gesture:
  "(trim d = [] \<longrightarrow>
      handleAddTask now d = ([], d) \<and> click_add now (S, d) = (S, d)) \<and>
   (trim d \<noteq> [] \<longrightarrow>
      handleAddTask now d = ([ADD_TASK \<lparr>id' = now, name = d, done' = False\<rparr>], []) \<and>
      click_add now (S, d)
        = (S\<lparr>tasks := tasks S @ [\<lparr>id' = now, name = d, done' = False\<rparr>]\<rparr>, [])) \<and>
   reducer S (ADD_TASK t) = S\<lparr>tasks := tasks S @ [t]\<rparr> \<and>
   tasks (reducer S (ADD_TASK \<lparr>id' = i, name = [], done' = b\<rparr>))
     = tasks S @ [\<lparr>id' = i, name = [], done' = b\<rparr>]"
  by (simp add: handleAddTask_def click_add_def dispatch_all_def)

theorem add_task_gesture_witness:
  "trim [0x20, 0x09] = [] \<and>
   click_add 1700000000000 (\<lparr>tasks = [], loading = False, error = None\<rparr>, [0x20, 0x09])
     = (\<lparr>tasks = [], loading = False, error = None\<rparr>, [0x20, 0x09]) \<and>
   trim [0x20, 0x61, 0x20] = [0x61] \<and>
   handleAddTask 1700000000000 [0x20, 0x61, 0x20]
     = ([ADD_TASK \<lparr>id' = 1700000000000, name = [0x20, 0x61, 0x20], done' = False\<rparr>], []) \<and>
   click_add 1700000000000 (\<lparr>tasks = [], loading = False, error = None\<rparr>, [0x20, 0x61, 0x20])
     = (\<lparr>tasks = [\<lparr>id' = 1700000000000, name = [0x20, 0x61, 0x20], done' = False\<rparr>],
          loading = False, error = None\<rparr>, [])"
proof -
  have h_blank: "trim [0x20, 0x09] = []"
    by (simp add: trim_def is_ws_def)
  have h_word: "trim [0x20, 0x61, 0x20] = [0x61]"
    by (simp add: trim_def is_ws_def)
  from h_blank h_word
    add_task_gesture [of "[0x20, 0x09]" 1700000000000
      "\<lparr>tasks = [], loading = False, error = None\<rparr>"]
    add_task_gesture [of "[0x20, 0x61, 0x20]" 1700000000000
      "\<lparr>tasks = [], loading = False, error = None\<rparr>"]
  show ?thesis by simp
qed

text \<open>
  C10. \<open>FETCH_SUCCESS\<close> does not clear an error: for every state \<open>S\<close> and
  every payload \<open>P\<close> the error after \<open>FETCH_SUCCESS P\<close> is the error of \<open>S\<close>; when that error
  is a non-empty message, the component renders the error panel with it and not the
  fetched tasks.
\<close>

theorem fetch_success_keeps_error:
  "error (reducer S (FETCH_SUCCESS P)) = error S \<and>
   (error S = Some m \<and> m \<noteq> [] \<longrightarrow> App (reducer S (FETCH_SUCCESS P)) = ErrorPanel m)"
  by (simp add: App_def truthy_def)

theorem fetch_success_keeps_error_witness:
  "error (reducer initialState (FETCH_ERROR (utf16 ''Network Error'')))
     = Some (utf16 ''Network Error'') \<and>
   utf16 ''Network Error'' \<noteq> [] \<and>
   error (reducer (reducer initialState (FETCH_ERROR (utf16 ''Network Error'')))
            (FETCH_SUCCESS [\<lparr>id' = 1, name = utf16 ''Buy milk'', done' = False\<rparr>]))
     = Some (utf16 ''Network Error'') \<and>
   App (reducer (reducer initialState (FETCH_ERROR (utf16 ''Network Error'')))
          (FETCH_SUCCESS [\<lparr>id' = 1, name = utf16 ''Buy milk'', done' = False\<rparr>]))
     = ErrorPanel (utf16 ''Network Error'')"
proof -
  have h_set: "error (reducer initialState (FETCH_ERROR (utf16 ''Network Error'')))
     = Some (utf16 ''Network Error'')"
    by simp
  have h_nonempty: "utf16 ''Network Error'' \<noteq> []"
    by (simp add: utf16_def)
  from h_set h_nonempty
    fetch_success_keeps_error
      [of "reducer initialState (FETCH_ERROR (utf16 ''Network Error''))"
          "[\<lparr>id' = 1, name = utf16 ''Buy milk'', done' = False\<rparr>]"
          "utf16 ''Network Error''"]
  show ?thesis by simp
qed

text \<open>
  C10 does not extend to every error that is not \<^verbatim>\<open>null\<close>. The component tests \<^verbatim>\<open>if (error)\<close>, and the empty message is falsy: with \<open>error = ""\<close> the
  error survives \<open>FETCH_SUCCESS\<close>, and the fetched tasks are rendered.
\<close>

theorem fetch_success_empty_error_counterexample:
  "error \<lparr>tasks = [], loading = False, error = Some []\<rparr> \<noteq> None \<and>
   error (reducer \<lparr>tasks = [], loading = False, error = Some []\<rparr>
            (FETCH_SUCCESS [\<lparr>id' = 1, name = utf16 ''Buy milk'', done' = False\<rparr>]))
     = Some [] \<and>
   App (reducer \<lparr>tasks = [], loading = False, error = Some []\<rparr>
          (FETCH_SUCCESS [\<lparr>id' = 1, name = utf16 ''Buy milk'', done' = False\<rparr>]))
     = TaskLists [\<lparr>id' = 1, name = utf16 ''Buy milk'', done' = False\<rparr>] [] \<and>
   App (reducer \<lparr>tasks = [], loading = False, error = Some []\<rparr>
          (FETCH_SUCCESS [\<lparr>id' = 1, name = utf16 ''Buy milk'', done' = False\<rparr>]))
     \<noteq> ErrorPanel []"
  by (simp add: App_def truthy_def tasksToDo_def doneTasks_def)

end
